theory Spec2Isabelle
  imports Main "HOL-Library.Word"
begin

section \<open>Preview generation and caching pipeline (http/preview.go)\<close>

subsection \<open>Data of the pipeline\<close>

text \<open>Go's \<open>string\<close> and \<open>[]byte\<close> are byte sequences; \<open>char\<close> is a byte.\<close>

type_synonym bytes = string

text \<open>The enum of preview.go (\<open>ENUM(thumb big)\<close>): two values and no other.\<close>

datatype PreviewSize = PreviewSizeThumb | PreviewSizeBig

text \<open>
  Modelled from the spec: the declarations of package \<open>img\<close> are not among the sources.
  Only what preview.go names is kept apart: the formats \<open>FormatGif\<close> and \<open>FormatJpeg\<close>
  (every further format is \<open>FormatOther n\<close>), the resize modes fit and fill, the quality
  tiers low and medium, and the three options built by \<open>WithMode\<close>, \<open>WithQuality\<close> and
  \<open>WithFormat\<close>.
\<close>

datatype Format = FormatJpeg | FormatGif | FormatOther nat

datatype ResizeMode = ResizeModeFit | ResizeModeFill

datatype Quality = QualityLow | QualityMedium

datatype Option = WithMode ResizeMode | WithQuality Quality | WithFormat Format

text \<open>
  Go errors are compared by identity: \<open>img.ErrUnsupportedFormat\<close> is one fixed value,
  every other error is \<open>ErrOther\<close> with its message.
\<close>

datatype error = ErrUnsupportedFormat | ErrOther string

subsection \<open>The cache key: \<open>fmt.Sprintf("%x%x%x", fPath, fTime, previewSize)\<close>\<close>

definition hexdigit :: "nat \<Rightarrow> char" where
  "hexdigit n = ''0123456789abcdef'' ! (n mod 16)"

text \<open>\<open>%x\<close> of an unsigned magnitude: base 16, lower case, no padding.\<close>

fun fmt_x_nat :: "nat \<Rightarrow> string" where
  "fmt_x_nat n = (if n < 16 then [hexdigit n] else fmt_x_nat (n div 16) @ [hexdigit (n mod 16)])"

declare fmt_x_nat.simps [simp del]

text \<open>\<open>%x\<close> of a string: two hexadecimal digits for every byte.\<close>

definition fmt_x_byte :: "char \<Rightarrow> string" where
  "fmt_x_byte c = [hexdigit (of_char c div 16), hexdigit (of_char c mod 16)]"

definition fmt_x_string :: "string \<Rightarrow> string" where
  "fmt_x_string s = concat (map fmt_x_byte s)"

text \<open>\<open>%x\<close> of an \<open>int64\<close>: a minus sign and the magnitude when negative.\<close>

definition fmt_x_int64 :: "64 word \<Rightarrow> string" where
  "fmt_x_int64 v =
     (if sint v < 0 then CHR ''-'' # fmt_x_nat (nat (- sint v)) else fmt_x_nat (nat (sint v)))"

text \<open>
  Modelled from the spec: the code generated by go-enum for \<open>PreviewSize\<close> (its
  \<open>String\<close> method and \<open>ParsePreviewSize\<close>) is not among the sources. The names are
  those of the \<open>ENUM\<close> comment of preview.go. With a \<open>String\<close> method on the type,
  \<open>%x\<close> prints the hexadecimal bytes of the name.
\<close>

definition PreviewSize_String :: "PreviewSize \<Rightarrow> string" where
  "PreviewSize_String x = (case x of PreviewSizeThumb \<Rightarrow> ''thumb'' | PreviewSizeBig \<Rightarrow> ''big'')"

definition fmt_x_PreviewSize :: "PreviewSize \<Rightarrow> string" where
  "fmt_x_PreviewSize x = fmt_x_string (PreviewSize_String x)"

text \<open>
  How the third \<open>%x\<close> prints a \<open>PreviewSize\<close> rests on that generated code, so
  \<open>previewCacheKey\<close> takes the rendering \<open>fmtSize\<close> as its first argument; the two
  other fields are printed as above and the three are joined with nothing between them.
\<close>

definition previewCacheKey :: "(PreviewSize \<Rightarrow> string) \<Rightarrow> string \<Rightarrow> 64 word \<Rightarrow> PreviewSize \<Rightarrow> string" where
  "previewCacheKey fmtSize fPath fTime previewSize =
     fmt_x_string fPath @ fmt_x_int64 fTime @ fmtSize previewSize"

subsection \<open>Collaborators\<close>

text \<open>
  \<open>file.Fs.Open(file.Path)\<close> gives a reader or an error; the reader is stood for by the
  bytes it yields.
\<close>

type_synonym afero_Fs = "string \<Rightarrow> error + bytes"

text \<open>
  Modelled from the spec: the declaration of \<open>files.FileInfo\<close> is not among the sources.
  These are the fields preview.go reads; \<open>ModTime\<close> holds \<open>file.ModTime.Unix()\<close>.
\<close>

record FileInfo =
  Fs :: afero_Fs
  Path :: string
  ModTime :: "64 word"
  Size :: "64 word"
  Type :: string
  Extension :: string

text \<open>
  The two interfaces of preview.go. \<open>FormatFromExtension\<close> returns a pair, and the
  handler reads the format whatever the error is. \<open>Resize\<close> takes the reader's bytes,
  the box and the options, and gives what it wrote to \<open>out\<close> together with its error.
  A cache answers one \<open>Load\<close> and one \<open>Store\<close> at most during a request, so each
  method is the answer the collaborator gives to that call.
\<close>

record ImgService =
  FormatFromExtension :: "string \<Rightarrow> Format \<times> error option"
  Resize :: "bytes \<Rightarrow> int \<Rightarrow> int \<Rightarrow> Option list \<Rightarrow> bytes \<times> error option"

record FileCache =
  Store :: "string \<Rightarrow> bytes \<Rightarrow> error option"
  Load :: "string \<Rightarrow> bytes \<times> bool \<times> error option"
  Delete :: "string \<Rightarrow> error option"

text \<open>
  Modelled from the spec: the request and the handler's \<open>data\<close> are declared outside the
  sources. \<open>vars\<close> is \<open>mux.Vars(r)\<close>; \<open>validators\<close> are the conditional-request
  validators the client sent, if any (spec 4.3).
\<close>

record Request =
  vars :: "string \<Rightarrow> string"
  validators :: "(64 word \<times> 64 word) option"

record Permissions =
  Download :: bool
  Modify :: bool

record User =
  Perm :: Permissions
  user_Fs :: afero_Fs

record Server =
  TypeDetectionByHeader :: bool

record data =
  user :: User
  server :: Server

record FileOptions =
  opt_Fs :: afero_Fs
  opt_Path :: string
  opt_Modify :: bool
  opt_Expand :: bool
  opt_ReadHeader :: bool
  opt_Checker :: data

text \<open>
  Functions of the repository that preview.go calls and that are not among the sources
  are parameters: \<open>errToStatus\<close>, \<open>files.NewFileInfo\<close> and the rendering of a
  \<open>PreviewSize\<close> under \<open>%x\<close>.
\<close>

record deps =
  errToStatus :: "error \<Rightarrow> int"
  NewFileInfo :: "FileOptions \<Rightarrow> error + FileInfo"
  fmtSize :: "PreviewSize \<Rightarrow> string"

definition StatusAccepted :: int where "StatusAccepted = 202"
definition StatusNotModified :: int where "StatusNotModified = 304"
definition StatusBadRequest :: int where "StatusBadRequest = 400"
definition StatusForbidden :: int where "StatusForbidden = 403"
definition StatusNotImplemented :: int where "StatusNotImplemented = 501"

subsection \<open>What a request does, in order\<close>

text \<open>
  The goroutine started by \<open>go func() { ... }()\<close> runs on its own: its calls are a
  trace of their own, carried by the \<open>GoCall\<close> event at the point of the \<open>go\<close>
  statement. Every other event is a call made by the handler itself, in program order.
\<close>

datatype task_event = StoreCall string bytes | PrintfCall string error

datatype event =
    ParsePreviewSizeCall string
  | NewFileInfoCall string
  | SetContentDispositionCall
  | FormatFromExtensionCall string
  | RawFileHandlerCall string bytes
  | CheckEtagCall "64 word" "64 word"
  | LoadCall string
  | WriteCall bytes
  | OpenCall string
  | CloseCall
  | ResizeCall bytes int int "Option list"
  | GoCall "task_event list"

type_synonym 'a traced = "'a \<times> event list"

subsection \<open>Helpers outside the sources\<close>

text \<open>
  Modelled from the spec: \<open>checkEtag\<close> is not among the sources. Spec 4.3: the request
  is fresh exactly when its conditional-request validators are the descriptor's
  modification time and size.
\<close>

definition checkEtag :: "Request \<Rightarrow> 64 word \<Rightarrow> 64 word \<Rightarrow> bool" where
  "checkEtag r fTime fSize = (validators r = Some (fTime, fSize))"

text \<open>
  Modelled from the spec: \<open>rawFileHandler\<close> is not among the sources. Spec 4.2, step 2,
  and the glossary: raw passthrough serves the original file bytes unmodified. A file
  that cannot be opened is a backend failure (spec 6 and 7): nothing is served and the
  status is the one \<open>errToStatus\<close> gives the error. The result is the bytes written to
  the response, the status and the error.
\<close>

definition rawFileHandler :: "deps \<Rightarrow> Request \<Rightarrow> FileInfo \<Rightarrow> bytes \<times> int \<times> error option" where
  "rawFileHandler dp r file =
     (case Fs file (Path file) of
        Inr content \<Rightarrow> (content, 0, None)
      | Inl err \<Rightarrow> ([], errToStatus dp err, Some err))"

text \<open>
  Modelled from the spec: \<open>ParsePreviewSize\<close> is generated code, not among the sources.
  The size token decodes to one of the two values of the \<open>ENUM\<close> comment or the call
  fails (spec 4.1, step 2).
\<close>

definition ParsePreviewSize :: "string \<Rightarrow> error + PreviewSize" where
  "ParsePreviewSize name =
     (if name = ''thumb'' then Inr PreviewSizeThumb
      else if name = ''big'' then Inr PreviewSizeBig
      else Inl (ErrOther (name @ '' is not a valid PreviewSize'')))"

subsection \<open>createPreview\<close>

text \<open>
  The body of the goroutine of \<open>createPreview\<close>: one \<open>Store\<close> under the key of the
  file, and one line printed when it fails. Nothing of it is returned to anyone.
\<close>

definition createPreview_go :: "deps \<Rightarrow> FileCache \<Rightarrow> FileInfo \<Rightarrow> PreviewSize \<Rightarrow> bytes \<Rightarrow> task_event list" where
  "createPreview_go dp fileCache file previewSize buf =
     (let cacheKey = previewCacheKey (fmtSize dp) (Path file) (ModTime file) previewSize in
      case Store fileCache cacheKey buf of
        Some err \<Rightarrow> [StoreCall cacheKey buf, PrintfCall ''failed to cache resized image: %v'' err]
      | None \<Rightarrow> [StoreCall cacheKey buf])"

text \<open>The \<open>switch\<close> of \<open>createPreview\<close>: width, height and options, or the default case.\<close>

definition createPreview_switch :: "PreviewSize \<Rightarrow> bool \<Rightarrow> bool \<Rightarrow> (int \<times> int \<times> Option list) option" where
  "createPreview_switch previewSize enableThumbnails resizePreview =
     (if previewSize = PreviewSizeBig \<and> resizePreview then
        Some (1080, 1080, [WithMode ResizeModeFit, WithQuality QualityMedium])
      else if previewSize = PreviewSizeThumb \<and> enableThumbnails then
        Some (128, 128, [WithMode ResizeModeFill, WithQuality QualityLow, WithFormat FormatJpeg])
      else None)"

text \<open>What \<open>createPreview\<close> does between \<open>defer fd.Close()\<close> and its return.\<close>

definition createPreview_opened :: "deps \<Rightarrow> ImgService \<Rightarrow> FileCache \<Rightarrow> FileInfo \<Rightarrow> PreviewSize \<Rightarrow> bool \<Rightarrow> bool \<Rightarrow> bytes \<Rightarrow> (error + bytes) traced" where
  "createPreview_opened dp imgSvc fileCache file previewSize enableThumbnails resizePreview fd =
     (case createPreview_switch previewSize enableThumbnails resizePreview of
        None \<Rightarrow> (Inl ErrUnsupportedFormat, [])
      | Some (width, height, options) \<Rightarrow>
          (case Resize imgSvc fd width height options of
             (buf, Some err) \<Rightarrow> (Inl err, [ResizeCall fd width height options])
           | (buf, None) \<Rightarrow>
               (Inr buf,
                [ResizeCall fd width height options,
                 GoCall (createPreview_go dp fileCache file previewSize buf)])))"

text \<open>
  \<open>createPreview\<close>: the error of \<open>Open\<close>, or the body above followed by the deferred
  \<open>Close\<close>. The result is \<open>(nil, err)\<close> as \<open>Inl err\<close> and \<open>(buf, nil)\<close> as \<open>Inr buf\<close>.
\<close>

definition createPreview :: "deps \<Rightarrow> ImgService \<Rightarrow> FileCache \<Rightarrow> FileInfo \<Rightarrow> PreviewSize \<Rightarrow> bool \<Rightarrow> bool \<Rightarrow> (error + bytes) traced" where
  "createPreview dp imgSvc fileCache file previewSize enableThumbnails resizePreview =
     (case Fs file (Path file) of
        Inl err \<Rightarrow> (Inl err, [OpenCall (Path file)])
      | Inr fd \<Rightarrow>
          (case createPreview_opened dp imgSvc fileCache file previewSize enableThumbnails resizePreview fd of
             (res, tr) \<Rightarrow> (res, OpenCall (Path file) # tr @ [CloseCall])))"

subsection \<open>handleImagePreview\<close>

definition handleImagePreview :: "deps \<Rightarrow> Request \<Rightarrow> ImgService \<Rightarrow> FileCache \<Rightarrow> FileInfo \<Rightarrow> PreviewSize \<Rightarrow> bool \<Rightarrow> bool \<Rightarrow> (int \<times> error option) traced" where
  "handleImagePreview dp r imgSvc fileCache file previewSize enableThumbnails resizePreview =
     (case FormatFromExtension imgSvc (Extension file) of
        (format, err) \<Rightarrow>
          if err = Some ErrUnsupportedFormat \<or> format = FormatGif then
            (case rawFileHandler dp r file of
               (out, status, rerr) \<Rightarrow>
                 ((status, rerr),
                  [FormatFromExtensionCall (Extension file), RawFileHandlerCall (Path file) out]))
          else
            (case err of
               Some e \<Rightarrow> ((errToStatus dp e, Some e), [FormatFromExtensionCall (Extension file)])
             | None \<Rightarrow>
                 if checkEtag r (ModTime file) (Size file) then
                   ((StatusNotModified, None),
                    [FormatFromExtensionCall (Extension file),
                     CheckEtagCall (ModTime file) (Size file)])
                 else
                   (let cacheKey = previewCacheKey (fmtSize dp) (Path file) (ModTime file) previewSize;
                        pre = [FormatFromExtensionCall (Extension file),
                               CheckEtagCall (ModTime file) (Size file),
                               LoadCall cacheKey] in
                    case Load fileCache cacheKey of
                      (cachedFile, ok, Some e) \<Rightarrow> ((errToStatus dp e, Some e), pre)
                    | (cachedFile, ok, None) \<Rightarrow>
                        if ok then ((0, None), pre @ [WriteCall cachedFile])
                        else
                          (case createPreview dp imgSvc fileCache file previewSize
                                  enableThumbnails resizePreview of
                             (Inl e, tr) \<Rightarrow> ((errToStatus dp e, Some e), pre @ tr)
                           | (Inr resizedImage, tr) \<Rightarrow>
                               ((0, None), pre @ tr @ [WriteCall resizedImage])))))"

subsection \<open>previewHandler\<close>

text \<open>The function given to \<open>withUser\<close>, for the request \<open>r\<close> and the data \<open>d\<close>.\<close>

definition previewHandler :: "deps \<Rightarrow> ImgService \<Rightarrow> FileCache \<Rightarrow> bool \<Rightarrow> bool \<Rightarrow> Request \<Rightarrow> data \<Rightarrow> (int \<times> error option) traced" where
  "previewHandler dp imgSvc fileCache enableThumbnails resizePreview r d =
     (if \<not> Download (Perm (user d)) then ((StatusAccepted, None), [])
      else
        (case ParsePreviewSize (vars r ''size'') of
           Inl err \<Rightarrow> ((StatusBadRequest, Some err), [ParsePreviewSizeCall (vars r ''size'')])
         | Inr previewSize \<Rightarrow>
             (let pre = [ParsePreviewSizeCall (vars r ''size''),
                         NewFileInfoCall (CHR ''/'' # vars r ''path'')] in
              case NewFileInfo dp
                     \<lparr>opt_Fs = user_Fs (user d), opt_Path = CHR ''/'' # vars r ''path'',
                      opt_Modify = Modify (Perm (user d)), opt_Expand = True,
                      opt_ReadHeader = TypeDetectionByHeader (server d), opt_Checker = d\<rparr> of
                Inl err \<Rightarrow> ((errToStatus dp err, Some err), pre)
              | Inr file \<Rightarrow>
                  if Type file = ''image'' then
                    (case handleImagePreview dp r imgSvc fileCache file previewSize
                            enableThumbnails resizePreview of
                       (res, tr) \<Rightarrow> (res, pre @ SetContentDispositionCall # tr))
                  else
                    ((StatusNotImplemented,
                      Some (ErrOther (''can'' @ [CHR 0x27] @ ''t create preview for '' @ Type file @ '' type''))),
                     pre @ [SetContentDispositionCall]))))"

subsection \<open>Reading a trace\<close>

text \<open>The bytes sent to the client: what \<open>w.Write\<close> and the raw handler wrote, in order.\<close>

fun written :: "event \<Rightarrow> bytes" where
  "written (WriteCall b) = b"
| "written (RawFileHandlerCall p b) = b"
| "written e = []"

definition responseBody :: "event list \<Rightarrow> bytes" where
  "responseBody tr = concat (map written tr)"

fun isStoreCall :: "task_event \<Rightarrow> bool" where
  "isStoreCall (StoreCall k v) = True"
| "isStoreCall t = False"

text \<open>A call of the cache collaborator: a \<open>Load\<close>, or a goroutine that calls \<open>Store\<close>.\<close>

fun isCacheCall :: "event \<Rightarrow> bool" where
  "isCacheCall (LoadCall k) = True"
| "isCacheCall (GoCall ts) = list_ex isStoreCall ts"
| "isCacheCall e = False"

fun isResizeCall :: "event \<Rightarrow> bool" where
  "isResizeCall (ResizeCall fd w h os) = True"
| "isResizeCall e = False"

text \<open>A call of the transform collaborator: either method of \<open>ImgService\<close>.\<close>

fun isTransformCall :: "event \<Rightarrow> bool" where
  "isTransformCall (FormatFromExtensionCall ext) = True"
| "isTransformCall (ResizeCall fd w h os) = True"
| "isTransformCall e = False"

fun isOpenCall :: "event \<Rightarrow> bool" where
  "isOpenCall (OpenCall p) = True"
| "isOpenCall e = False"


text \<open>A goroutine that calls \<open>Store\<close>.\<close>

fun issuesStore :: "event \<Rightarrow> bool" where
  "issuesStore (GoCall ts) = list_ex isStoreCall ts"
| "issuesStore e = False"


text \<open>An event that sends bytes to the client.\<close>

fun isServe :: "event \<Rightarrow> bool" where
  "isServe (WriteCall b) = True"
| "isServe (RawFileHandlerCall p b) = True"
| "isServe e = False"

text \<open>The keys an event hands to the cache collaborator.\<close>

fun taskKeys :: "task_event \<Rightarrow> string list" where
  "taskKeys (StoreCall k v) = [k]"
| "taskKeys t = []"

fun cacheKeys :: "event \<Rightarrow> string list" where
  "cacheKeys (LoadCall k) = [k]"
| "cacheKeys (GoCall ts) = concat (map taskKeys ts)"
| "cacheKeys e = []"

subsection \<open>A cache and a request to run the handlers on\<close>

text \<open>
  Modelled from the spec: the cache collaborator is outside the sources. Spec 3 and 6: a
  flat map from keys to bytes, whose \<open>Load\<close> gives the bytes held under the key and
  whether there are any.
\<close>

definition mapCache :: "(string \<rightharpoonup> bytes) \<Rightarrow> FileCache" where
  "mapCache m =
     \<lparr>Store = (\<lambda>k v. None),
      Load = (\<lambda>k. case m k of Some v \<Rightarrow> (v, True, None) | None \<Rightarrow> ([], False, None)),
      Delete = (\<lambda>k. None)\<rparr>"

text \<open>A cache whose every \<open>Store\<close> fails.\<close>

definition brokenCache :: "(string \<rightharpoonup> bytes) \<Rightarrow> FileCache" where
  "brokenCache m = (mapCache m)\<lparr>Store := (\<lambda>k v. Some (ErrOther ''disk full''))\<rparr>"

text \<open>
  An image service that knows three extensions, fails on \<open>.bad\<close> with an error of its
  own and calls every other extension unsupported.
\<close>

definition imgSvc0 :: ImgService where
  "imgSvc0 =
     \<lparr>FormatFromExtension =
        (\<lambda>ext. if ext = ''.png'' then (FormatOther 1, None)
              else if ext = ''.jpg'' then (FormatJpeg, None)
              else if ext = ''.gif'' then (FormatGif, None)
              else if ext = ''.bad'' then (FormatJpeg, Some (ErrOther ''broken''))
              else (FormatJpeg, Some ErrUnsupportedFormat)),
      Resize = (\<lambda>fd w h os. (''small '' @ fd, None))\<rparr>"

definition fs0 :: afero_Fs where
  "fs0 p = (if p = ''/a.png'' then Inr ''PNGDATA'' else Inl (ErrOther ''file does not exist''))"

definition file0 :: FileInfo where
  "file0 = \<lparr>Fs = fs0, Path = ''/a.png'', ModTime = 1700000000, Size = 7,
             Type = ''image'', Extension = ''.png''\<rparr>"

definition deps0 :: deps where
  "deps0 =
     \<lparr>errToStatus = (\<lambda>e. 500),
      NewFileInfo = (\<lambda>opts. if opt_Path opts = ''/a.png'' then Inr file0
                           else Inl (ErrOther ''file does not exist'')),
      fmtSize = fmt_x_PreviewSize\<rparr>"

definition req0 :: Request where
  "req0 = \<lparr>vars = (\<lambda>k. if k = ''size'' then ''thumb'' else if k = ''path'' then ''a.png'' else []),
            validators = None\<rparr>"

text \<open>A user without the download permission.\<close>

definition d0 :: data where
  "d0 = \<lparr>user = \<lparr>Perm = \<lparr>Download = False, Modify = False\<rparr>, user_Fs = fs0\<rparr>,
           server = \<lparr>TypeDetectionByHeader = False\<rparr>\<rparr>"

text \<open>The key of \<open>/a.png\<close>, modified at 1700000000, as a thumbnail.\<close>

definition key0 :: string where
  "key0 = ''2f612e706e676553f1007468756d62''"

text \<open>The same request, sent again with the validators of \<open>file0\<close>.\<close>

definition reqFresh :: Request where
  "reqFresh = req0\<lparr>validators := Some (1700000000, 7)\<rparr>"

text \<open>More files: a bad extension, a GIF, and a file and a GIF that cannot be opened.\<close>

definition fileBad :: FileInfo where
  "fileBad = file0\<lparr>Extension := ''.bad''\<rparr>"


definition fileGone :: FileInfo where
  "fileGone = file0\<lparr>Path := ''/gone.png''\<rparr>"


section \<open>Properties\<close>

subsection \<open>Facts shared by the proofs\<close>

lemma previewCacheKey_key0:
  "previewCacheKey fmt_x_PreviewSize ''/a.png'' 1700000000 PreviewSizeThumb = key0"
  by (simp add: previewCacheKey_def fmt_x_PreviewSize_def PreviewSize_String_def
      fmt_x_string_def fmt_x_byte_def fmt_x_int64_def fmt_x_nat.simps hexdigit_def key0_def)

lemma createPreview_opened_cases:
  "createPreview_opened dp imgSvc fileCache file previewSize et rp fd = (res, tr) \<Longrightarrow>
     (createPreview_switch previewSize et rp = None \<and> res = Inl ErrUnsupportedFormat \<and> tr = [])
   \<or> (\<exists>w h os buf e. createPreview_switch previewSize et rp = Some (w, h, os)
         \<and> Resize imgSvc fd w h os = (buf, Some e) \<and> res = Inl e \<and> tr = [ResizeCall fd w h os])
   \<or> (\<exists>w h os buf. createPreview_switch previewSize et rp = Some (w, h, os)
         \<and> Resize imgSvc fd w h os = (buf, None) \<and> res = Inr buf
         \<and> tr = [ResizeCall fd w h os, GoCall (createPreview_go dp fileCache file previewSize buf)])"
  by (auto simp: createPreview_opened_def split: option.splits prod.splits)

lemma createPreview_no_load:
  "createPreview dp imgSvc fileCache file previewSize et rp = (res, tr) \<Longrightarrow> LoadCall k \<notin> set tr"
  by (auto simp: createPreview_def createPreview_opened_def split: sum.splits option.splits prod.splits)

text \<open>The two runs of the example of spec 8: a miss on an empty cache, then a hit.\<close>

lemma handleImagePreview_miss0:
  "handleImagePreview deps0 req0 imgSvc0 (mapCache Map.empty) file0 PreviewSizeThumb True True
     = ((0, None),
        [FormatFromExtensionCall ''.png'', CheckEtagCall 1700000000 7, LoadCall key0,
         OpenCall ''/a.png'',
         ResizeCall ''PNGDATA'' 128 128
           [WithMode ResizeModeFill, WithQuality QualityLow, WithFormat FormatJpeg],
         GoCall [StoreCall key0 ''small PNGDATA''],
         CloseCall,
         WriteCall ''small PNGDATA''])"
  by (simp add: handleImagePreview_def createPreview_def createPreview_opened_def
      createPreview_switch_def createPreview_go_def checkEtag_def mapCache_def
      deps0_def req0_def imgSvc0_def file0_def fs0_def previewCacheKey_key0)

lemma handleImagePreview_hit0:
  "handleImagePreview deps0 req0 imgSvc0 (mapCache [key0 \<mapsto> ''small PNGDATA'']) file0
       PreviewSizeThumb True True
     = ((0, None),
        [FormatFromExtensionCall ''.png'', CheckEtagCall 1700000000 7, LoadCall key0,
         WriteCall ''small PNGDATA''])"
  by (simp add: handleImagePreview_def checkEtag_def mapCache_def
      deps0_def req0_def imgSvc0_def file0_def previewCacheKey_key0)

lemma createPreview_quiet_failure:
  "createPreview_switch previewSize et rp = None \<Longrightarrow>
   createPreview dp imgSvc fileCache file previewSize et rp
     = (case Fs file (Path file) of
          Inr fd \<Rightarrow> (Inl ErrUnsupportedFormat, [OpenCall (Path file), CloseCall])
        | Inl e \<Rightarrow> (Inl e, [OpenCall (Path file)]))"
  by (simp add: createPreview_def createPreview_opened_def split: sum.splits)

subsection \<open>The permission gate\<close>

text \<open>
  C6: for a user without the download permission, \<open>previewHandler\<close> returns the status
  "accepted" (202, which is not "forbidden") with a nil error and an empty trace: no
  size parsing, no file resolution, no call of the cache or of the image service.
\<close>

theorem previewHandler_no_download:
  assumes "\<not> Download (Perm (user d))"
  shows "previewHandler dp imgSvc fileCache enableThumbnails resizePreview r d = ((202, None), [])
         \<and> StatusAccepted = 202 \<and> StatusAccepted \<noteq> StatusForbidden"
  using assms by (simp add: previewHandler_def StatusAccepted_def StatusForbidden_def)

theorem previewHandler_no_download_witness:
  "\<not> Download (Perm (user d0))
   \<and> previewHandler deps0 imgSvc0 (mapCache Map.empty) True True req0 d0 = ((202, None), [])"
  using previewHandler_no_download [of d0 deps0 imgSvc0 "mapCache Map.empty" True True req0]
  by (simp add: d0_def)

subsection \<open>The reader of createPreview\<close>

text \<open>
  C9: once \<open>Open\<close> has succeeded in \<open>createPreview\<close>, whatever the size, the flags and
  the outcome of \<open>Resize\<close> (flag disabled, \<open>Resize\<close> failed, success), the reader is
  closed exactly once and \<open>Close\<close> is the last thing done before the function returns;
  the file is opened once, first.
\<close>

theorem createPreview_closes_reader:
  assumes "Fs file (Path file) = Inr fd"
  shows "last (snd (createPreview dp imgSvc fileCache file previewSize et rp)) = CloseCall
       \<and> hd (snd (createPreview dp imgSvc fileCache file previewSize et rp)) = OpenCall (Path file)
       \<and> length (filter isOpenCall (snd (createPreview dp imgSvc fileCache file previewSize et rp))) = 1
       \<and> count_list (snd (createPreview dp imgSvc fileCache file previewSize et rp)) CloseCall = 1"
proof -
  obtain res tr where o: "createPreview_opened dp imgSvc fileCache file previewSize et rp fd = (res, tr)"
    by (cases "createPreview_opened dp imgSvc fileCache file previewSize et rp fd")
  have cp: "createPreview dp imgSvc fileCache file previewSize et rp
              = (res, OpenCall (Path file) # tr @ [CloseCall])"
    using assms o by (simp add: createPreview_def)
  from createPreview_opened_cases [OF o]
  have "count_list tr CloseCall = 0 \<and> filter isOpenCall tr = []"
    by auto
  then show ?thesis by (simp add: cp)
qed

theorem createPreview_closes_reader_witness:
  "Fs file0 (Path file0) = Inr ''PNGDATA''
   \<and> last (snd (createPreview deps0 imgSvc0 (mapCache Map.empty) file0 PreviewSizeThumb False True)) = CloseCall
   \<and> count_list (snd (createPreview deps0 imgSvc0 (mapCache Map.empty) file0 PreviewSizeThumb False True)) CloseCall = 1"
proof -
  have h: "Fs file0 (Path file0) = Inr ''PNGDATA''"
    by (simp add: file0_def fs0_def)
  show ?thesis
    using h createPreview_closes_reader [OF h, of deps0 imgSvc0 "mapCache Map.empty" PreviewSizeThumb False True]
    by simp
qed

subsection \<open>The cache key\<close>

text \<open>
  C10: \<open>previewCacheKey\<close> is not injective. The path bytes 02 34 with modification time
  5 and the path byte 02 with modification time 0x345 are different pairs, and for
  every size class (and every rendering of it) both keys are "02345" followed by the
  size class: the fields are joined with no separator and the time is not padded.
\<close>

theorem previewCacheKey_not_injective:
  "[CHR 0x02, CHR 0x34] \<noteq> [CHR 0x02] \<and> (5 :: 64 word) \<noteq> 0x345
   \<and> previewCacheKey f [CHR 0x02, CHR 0x34] 5 sz = previewCacheKey f [CHR 0x02] 0x345 sz
   \<and> previewCacheKey f [CHR 0x02, CHR 0x34] 5 sz = ''02345'' @ f sz
   \<and> \<not> inj (\<lambda>(p, t). previewCacheKey f p t sz)"
proof -
  have k1: "previewCacheKey f [CHR 0x02, CHR 0x34] 5 sz = ''02345'' @ f sz"
    by (simp add: previewCacheKey_def fmt_x_string_def fmt_x_byte_def fmt_x_int64_def
        fmt_x_nat.simps hexdigit_def)
  have k2: "previewCacheKey f [CHR 0x02] 0x345 sz = ''02345'' @ f sz"
    by (simp add: previewCacheKey_def fmt_x_string_def fmt_x_byte_def fmt_x_int64_def
        fmt_x_nat.simps hexdigit_def)
  have ne: "([CHR 0x02, CHR 0x34], 5 :: 64 word) \<noteq> ([CHR 0x02], 0x345)"
    by simp
  have "\<not> inj (\<lambda>(p, t). previewCacheKey f p t sz)"
  proof
    assume "inj (\<lambda>(p, t). previewCacheKey f p t sz)"
    then have "([CHR 0x02, CHR 0x34], 5 :: 64 word) = ([CHR 0x02], 0x345)"
      by (rule injD) (simp add: k1 k2)
    with ne show False by contradiction
  qed
  then show ?thesis using k1 k2 by simp
qed

subsection \<open>The freshness check\<close>

text \<open>
  C1, as the code has it: for a file whose extension \<open>FormatFromExtension\<close> accepts (no
  error, not GIF), a request whose validators are the file's modification time and size
  is answered "not modified" (304) with nothing written, after exactly two calls: the
  \<open>FormatFromExtension\<close> that opens the pipeline and the freshness check. There is no
  \<open>Load\<close>, no \<open>Store\<close> and no \<open>Resize\<close>.
\<close>

theorem handleImagePreview_fresh:
  assumes "FormatFromExtension imgSvc (Extension file) = (format, None)"
    and "format \<noteq> FormatGif"
    and "validators r = Some (ModTime file, Size file)"
  shows "handleImagePreview dp r imgSvc fileCache file previewSize et rp
           = ((304, None),
              [FormatFromExtensionCall (Extension file), CheckEtagCall (ModTime file) (Size file)])
       \<and> \<not> list_ex isCacheCall (snd (handleImagePreview dp r imgSvc fileCache file previewSize et rp))
       \<and> \<not> list_ex isResizeCall (snd (handleImagePreview dp r imgSvc fileCache file previewSize et rp))
       \<and> responseBody (snd (handleImagePreview dp r imgSvc fileCache file previewSize et rp)) = []"
  using assms
  by (simp add: handleImagePreview_def checkEtag_def StatusNotModified_def responseBody_def)

theorem handleImagePreview_fresh_witness:
  "FormatFromExtension imgSvc0 (Extension file0) = (FormatOther 1, None)
   \<and> validators reqFresh = Some (ModTime file0, Size file0)
   \<and> handleImagePreview deps0 reqFresh imgSvc0 (mapCache Map.empty) file0 PreviewSizeThumb True True
        = ((304, None), [FormatFromExtensionCall ''.png'', CheckEtagCall 1700000000 7])"
proof -
  have a: "FormatFromExtension imgSvc0 (Extension file0) = (FormatOther 1, None)"
    by (simp add: imgSvc0_def file0_def)
  have b: "FormatOther 1 \<noteq> FormatGif" by simp
  have c: "validators reqFresh = Some (ModTime file0, Size file0)"
    by (simp add: reqFresh_def file0_def)
  show ?thesis
    using a c handleImagePreview_fresh [OF a b c, of deps0 "mapCache Map.empty" PreviewSizeThumb True True]
    by (simp add: file0_def)
qed

text \<open>
  C1 as it is stated fails twice. The validators of \<open>reqFresh\<close> are those of \<open>file0\<close>,
  and the image service is called all the same: \<open>FormatFromExtension\<close> runs before the
  freshness check. And for \<open>fileBad\<close>, with the same validators, format detection fails
  and the answer is the status of that error, not 304.
\<close>

theorem handleImagePreview_fresh_counterexample:
  "checkEtag reqFresh (ModTime file0) (Size file0)
   \<and> snd (handleImagePreview deps0 reqFresh imgSvc0 (mapCache Map.empty) file0 PreviewSizeThumb True True)
        = [FormatFromExtensionCall ''.png'', CheckEtagCall 1700000000 7]
   \<and> list_ex isTransformCall
        (snd (handleImagePreview deps0 reqFresh imgSvc0 (mapCache Map.empty) file0 PreviewSizeThumb True True))
   \<and> checkEtag reqFresh (ModTime fileBad) (Size fileBad)
   \<and> handleImagePreview deps0 reqFresh imgSvc0 (mapCache Map.empty) fileBad PreviewSizeThumb True True
        = ((500, Some (ErrOther ''broken'')), [FormatFromExtensionCall ''.bad''])"
  by (simp add: handleImagePreview_def checkEtag_def reqFresh_def file0_def fileBad_def
      imgSvc0_def deps0_def StatusNotModified_def)

subsection \<open>The cache hit\<close>

text \<open>
  C2: when the handler's \<open>Load\<close> reports a hit, the handler writes exactly the bytes the
  cache returned, returns, and has done nothing else after the lookup: the file is not
  opened, \<open>Resize\<close> is not called and no \<open>Store\<close> is issued. The key is the file's
  \<open>previewCacheKey\<close>, so with a cache that is a map the bytes served are the bytes held
  under that key.
\<close>

theorem handleImagePreview_cache_hit:
  assumes "LoadCall k \<in> set (snd (handleImagePreview dp r imgSvc fileCache file previewSize et rp))"
    and "Load fileCache k = (cachedFile, True, None)"
  shows "handleImagePreview dp r imgSvc fileCache file previewSize et rp
           = ((0, None),
              [FormatFromExtensionCall (Extension file), CheckEtagCall (ModTime file) (Size file),
               LoadCall k, WriteCall cachedFile])
       \<and> k = previewCacheKey (fmtSize dp) (Path file) (ModTime file) previewSize
       \<and> responseBody (snd (handleImagePreview dp r imgSvc fileCache file previewSize et rp)) = cachedFile
       \<and> \<not> list_ex isOpenCall (snd (handleImagePreview dp r imgSvc fileCache file previewSize et rp))
       \<and> \<not> list_ex isResizeCall (snd (handleImagePreview dp r imgSvc fileCache file previewSize et rp))
       \<and> \<not> list_ex issuesStore (snd (handleImagePreview dp r imgSvc fileCache file previewSize et rp))
       \<and> (\<forall>m. fileCache = mapCache m \<longrightarrow> m k = Some cachedFile)"
proof -
  let ?key = "previewCacheKey (fmtSize dp) (Path file) (ModTime file) previewSize"
  have k: "k = ?key"
    using assms(1)
    by (auto simp: handleImagePreview_def Let_def dest: createPreview_no_load
        split: prod.splits option.splits if_splits sum.splits)
  have h: "handleImagePreview dp r imgSvc fileCache file previewSize et rp
           = ((0, None),
              [FormatFromExtensionCall (Extension file), CheckEtagCall (ModTime file) (Size file),
               LoadCall k, WriteCall cachedFile])"
    using assms k
    by (auto simp: handleImagePreview_def Let_def split: prod.splits option.splits if_splits)
  have m: "\<forall>m. fileCache = mapCache m \<longrightarrow> m k = Some cachedFile"
    using assms(2) by (auto simp: mapCache_def split: option.splits)
  show ?thesis using k h m by (simp add: responseBody_def)
qed

theorem handleImagePreview_cache_hit_witness:
  "LoadCall key0 \<in> set (snd (handleImagePreview deps0 req0 imgSvc0
       (mapCache [key0 \<mapsto> ''small PNGDATA'']) file0 PreviewSizeThumb True True))
   \<and> Load (mapCache [key0 \<mapsto> ''small PNGDATA'']) key0 = (''small PNGDATA'', True, None)
   \<and> responseBody (snd (handleImagePreview deps0 req0 imgSvc0
       (mapCache [key0 \<mapsto> ''small PNGDATA'']) file0 PreviewSizeThumb True True)) = ''small PNGDATA''"
proof -
  have a: "LoadCall key0 \<in> set (snd (handleImagePreview deps0 req0 imgSvc0
       (mapCache [key0 \<mapsto> ''small PNGDATA'']) file0 PreviewSizeThumb True True))"
    by (simp add: handleImagePreview_hit0)
  have b: "Load (mapCache [key0 \<mapsto> ''small PNGDATA'']) key0 = (''small PNGDATA'', True, None)"
    by (simp add: mapCache_def)
  show ?thesis
    using a b handleImagePreview_cache_hit [OF a b] by (simp add: responseBody_def)
qed

subsection \<open>Raw passthrough\<close>




subsection \<open>The renderer's policy\<close>

text \<open>
  C7: with the flag of the requested size enabled, the calls of \<open>Resize\<close> made by
  \<open>createPreview\<close> are, once the file is open, exactly one: for Big, 1080 by 1080 with
  mode fit and quality medium and no format option; for Thumb, 128 by 128 with mode
  fill, quality low and the format forced to JPEG, whatever the file is.
\<close>

theorem createPreview_resize_parameters:
  "(previewSize = PreviewSizeBig \<and> resizePreview \<longrightarrow>
      filter isResizeCall (snd (createPreview dp imgSvc fileCache file previewSize enableThumbnails resizePreview))
        = (case Fs file (Path file) of
             Inr fd \<Rightarrow> [ResizeCall fd 1080 1080 [WithMode ResizeModeFit, WithQuality QualityMedium]]
           | Inl e \<Rightarrow> []))
   \<and> (previewSize = PreviewSizeThumb \<and> enableThumbnails \<longrightarrow>
      filter isResizeCall (snd (createPreview dp imgSvc fileCache file previewSize enableThumbnails resizePreview))
        = (case Fs file (Path file) of
             Inr fd \<Rightarrow> [ResizeCall fd 128 128
                          [WithMode ResizeModeFill, WithQuality QualityLow, WithFormat FormatJpeg]]
           | Inl e \<Rightarrow> []))"
  by (auto simp: createPreview_def createPreview_opened_def createPreview_switch_def
      split: sum.splits option.splits prod.splits)

theorem createPreview_resize_parameters_witness:
  "filter isResizeCall (snd (createPreview deps0 imgSvc0 (mapCache Map.empty) file0 PreviewSizeBig False True))
     = [ResizeCall ''PNGDATA'' 1080 1080 [WithMode ResizeModeFit, WithQuality QualityMedium]]
   \<and> filter isResizeCall (snd (createPreview deps0 imgSvc0 (mapCache Map.empty) file0 PreviewSizeThumb True False))
     = [ResizeCall ''PNGDATA'' 128 128
          [WithMode ResizeModeFill, WithQuality QualityLow, WithFormat FormatJpeg]]"
  using createPreview_resize_parameters [of PreviewSizeBig True deps0 imgSvc0 "mapCache Map.empty" file0 False]
    createPreview_resize_parameters [of PreviewSizeThumb False deps0 imgSvc0 "mapCache Map.empty" file0 True]
  by (simp add: file0_def fs0_def)

text \<open>
  C4, as the code has it: when the flag of the requested size is disabled,
  \<open>createPreview\<close> fails: with the "unsupported format" error once the file has been
  opened (the reader is then closed), and with the error of \<open>Open\<close> otherwise. It never
  calls \<open>Resize\<close> and sends no bytes; on a cache miss the handler answers with the
  status of the error and nothing is served, raw or resized.
\<close>

theorem createPreview_flag_disabled:
  assumes "(previewSize = PreviewSizeBig \<and> \<not> resizePreview)
         \<or> (previewSize = PreviewSizeThumb \<and> \<not> enableThumbnails)"
  shows "createPreview dp imgSvc fileCache file previewSize enableThumbnails resizePreview
           = (case Fs file (Path file) of
                Inr fd \<Rightarrow> (Inl ErrUnsupportedFormat, [OpenCall (Path file), CloseCall])
              | Inl e \<Rightarrow> (Inl e, [OpenCall (Path file)]))
       \<and> \<not> list_ex isResizeCall
             (snd (createPreview dp imgSvc fileCache file previewSize enableThumbnails resizePreview))
       \<and> \<not> list_ex isServe
             (snd (createPreview dp imgSvc fileCache file previewSize enableThumbnails resizePreview))
       \<and> (\<forall>format c.
             FormatFromExtension imgSvc (Extension file) = (format, None) \<and> format \<noteq> FormatGif
             \<and> \<not> checkEtag r (ModTime file) (Size file)
             \<and> Load fileCache (previewCacheKey (fmtSize dp) (Path file) (ModTime file) previewSize)
                 = (c, False, None)
             \<longrightarrow> (\<exists>e. fst (handleImagePreview dp r imgSvc fileCache file previewSize
                               enableThumbnails resizePreview) = (errToStatus dp e, Some e))
               \<and> \<not> list_ex isServe (snd (handleImagePreview dp r imgSvc fileCache file previewSize
                               enableThumbnails resizePreview)))"
proof -
  have sw: "createPreview_switch previewSize enableThumbnails resizePreview = None"
    using assms by (auto simp: createPreview_switch_def)
  note cp = createPreview_quiet_failure [OF sw, of dp imgSvc fileCache "file"]
  have a: "\<not> list_ex isResizeCall
             (snd (createPreview dp imgSvc fileCache file previewSize enableThumbnails resizePreview))"
    by (simp add: cp split: sum.splits)
  have b: "\<not> list_ex isServe
             (snd (createPreview dp imgSvc fileCache file previewSize enableThumbnails resizePreview))"
    by (simp add: cp split: sum.splits)
  have c: "\<exists>e. fst (handleImagePreview dp r imgSvc fileCache file previewSize
                               enableThumbnails resizePreview) = (errToStatus dp e, Some e)"
      and d: "\<not> list_ex isServe (snd (handleImagePreview dp r imgSvc fileCache file previewSize
                               enableThumbnails resizePreview))"
    if "FormatFromExtension imgSvc (Extension file) = (format, None)" "format \<noteq> FormatGif"
       "\<not> checkEtag r (ModTime file) (Size file)"
       "Load fileCache (previewCacheKey (fmtSize dp) (Path file) (ModTime file) previewSize)
                 = (c, False, None)" for format c
    using that by (auto simp: handleImagePreview_def cp split: sum.splits)
  show ?thesis using a b c d by (simp only: cp) blast
qed

theorem createPreview_flag_disabled_witness:
  "((PreviewSizeBig = PreviewSizeBig \<and> \<not> False) \<or> (PreviewSizeBig = PreviewSizeThumb \<and> \<not> True))
   \<and> createPreview deps0 imgSvc0 (mapCache Map.empty) file0 PreviewSizeBig True False
        = (Inl ErrUnsupportedFormat, [OpenCall ''/a.png'', CloseCall])
   \<and> handleImagePreview deps0 req0 imgSvc0 (mapCache Map.empty) file0 PreviewSizeBig True False
        = ((500, Some ErrUnsupportedFormat),
           [FormatFromExtensionCall ''.png'', CheckEtagCall 1700000000 7,
            LoadCall ''2f612e706e676553f100626967'', OpenCall ''/a.png'', CloseCall])"
proof -
  have a: "(PreviewSizeBig = PreviewSizeBig \<and> \<not> False) \<or> (PreviewSizeBig = PreviewSizeThumb \<and> \<not> True)"
    by simp
  have k: "previewCacheKey fmt_x_PreviewSize ''/a.png'' 1700000000 PreviewSizeBig
             = ''2f612e706e676553f100626967''"
    by (simp add: previewCacheKey_def fmt_x_PreviewSize_def PreviewSize_String_def
      fmt_x_string_def fmt_x_byte_def fmt_x_int64_def fmt_x_nat.simps hexdigit_def)
  have h: "handleImagePreview deps0 req0 imgSvc0 (mapCache Map.empty) file0 PreviewSizeBig True False
        = ((500, Some ErrUnsupportedFormat),
           [FormatFromExtensionCall ''.png'', CheckEtagCall 1700000000 7,
            LoadCall ''2f612e706e676553f100626967'', OpenCall ''/a.png'', CloseCall])"
    by (simp add: handleImagePreview_def createPreview_def createPreview_opened_def
      createPreview_switch_def checkEtag_def mapCache_def
      deps0_def req0_def imgSvc0_def file0_def fs0_def k)
  show ?thesis
    using a h createPreview_flag_disabled [OF a, of deps0 imgSvc0 "mapCache Map.empty" file0 req0]
    by (simp add: file0_def fs0_def)
qed

text \<open>
  C4 as it is stated fails when the file cannot be opened: with the flag of Big
  disabled, \<open>createPreview\<close> on \<open>fileGone\<close> returns the error of \<open>Open\<close>, which is not
  the "unsupported format" error.
\<close>

theorem createPreview_flag_disabled_counterexample:
  "fst (createPreview deps0 imgSvc0 (mapCache Map.empty) fileGone PreviewSizeBig True False)
     = Inl (ErrOther ''file does not exist'')
   \<and> ErrOther ''file does not exist'' \<noteq> ErrUnsupportedFormat"
  by (simp add: createPreview_def fileGone_def file0_def fs0_def)

subsection \<open>The detached store\<close>

text \<open>
  C5, as the code has it: on a cache miss with a successful render, \<open>createPreview\<close>
  starts the goroutine that stores the rendered bytes under the file's key right after
  \<open>Resize\<close> has succeeded, so before the reader is closed and before the handler writes
  the bytes to the response (Render, detached store submitted, Respond). The goroutine
  calls \<open>Store\<close> once and prints one line when it fails; the handler does not read its
  outcome: whatever \<open>Store\<close> does, the handler returns \<open>(0, nil)\<close> and the body is the
  rendered bytes.
\<close>

theorem handleImagePreview_miss_render:
  assumes "FormatFromExtension imgSvc (Extension file) = (format, None)"
    and "format \<noteq> FormatGif"
    and "\<not> checkEtag r (ModTime file) (Size file)"
    and "key = previewCacheKey (fmtSize dp) (Path file) (ModTime file) previewSize"
    and "Load fileCache key = (c, False, None)"
    and "Fs file (Path file) = Inr fd"
    and "createPreview_switch previewSize et rp = Some (w, h, os)"
    and "Resize imgSvc fd w h os = (buf, None)"
  shows "handleImagePreview dp r imgSvc fileCache file previewSize et rp
           = ((0, None),
              [FormatFromExtensionCall (Extension file), CheckEtagCall (ModTime file) (Size file),
               LoadCall key,
               OpenCall (Path file),
               ResizeCall fd w h os,
               GoCall (createPreview_go dp fileCache file previewSize buf),
               CloseCall,
               WriteCall buf])
       \<and> createPreview_go dp fileCache file previewSize buf
           = StoreCall key buf #
               (case Store fileCache key buf of
                  Some e \<Rightarrow> [PrintfCall ''failed to cache resized image: %v'' e]
                | None \<Rightarrow> [])
       \<and> (\<forall>store.
             fst (handleImagePreview dp r imgSvc (fileCache\<lparr>Store := store\<rparr>) file previewSize et rp)
               = (0, None)
           \<and> responseBody
               (snd (handleImagePreview dp r imgSvc (fileCache\<lparr>Store := store\<rparr>) file previewSize et rp))
               = buf)"
proof -
  have run: "handleImagePreview dp r imgSvc fc file previewSize et rp
           = ((0, None),
              [FormatFromExtensionCall (Extension file), CheckEtagCall (ModTime file) (Size file),
               LoadCall key,
               OpenCall (Path file),
               ResizeCall fd w h os,
               GoCall (createPreview_go dp fc file previewSize buf),
               CloseCall,
               WriteCall buf])"
    if "Load fc key = (c, False, None)" for fc
    using assms(1-4,6-8) that
    by (simp add: handleImagePreview_def createPreview_def createPreview_opened_def)
  have go: "createPreview_go dp fileCache file previewSize buf
           = StoreCall key buf #
               (case Store fileCache key buf of
                  Some e \<Rightarrow> [PrintfCall ''failed to cache resized image: %v'' e]
                | None \<Rightarrow> [])"
    using assms(4) by (simp add: createPreview_go_def split: option.splits)
  have ind: "fst (handleImagePreview dp r imgSvc (fileCache\<lparr>Store := store\<rparr>) file previewSize et rp)
               = (0, None)
           \<and> responseBody
               (snd (handleImagePreview dp r imgSvc (fileCache\<lparr>Store := store\<rparr>) file previewSize et rp))
               = buf" for store
    using assms(5) by (simp add: run responseBody_def)
  show ?thesis
    using run [OF assms(5)] go ind by simp
qed

theorem handleImagePreview_miss_render_witness:
  "handleImagePreview deps0 req0 imgSvc0 (brokenCache Map.empty) file0 PreviewSizeThumb True True
     = ((0, None),
        [FormatFromExtensionCall ''.png'', CheckEtagCall 1700000000 7, LoadCall key0,
         OpenCall ''/a.png'',
         ResizeCall ''PNGDATA'' 128 128
           [WithMode ResizeModeFill, WithQuality QualityLow, WithFormat FormatJpeg],
         GoCall [StoreCall key0 ''small PNGDATA'',
                 PrintfCall ''failed to cache resized image: %v'' (ErrOther ''disk full'')],
         CloseCall,
         WriteCall ''small PNGDATA''])
   \<and> fst (handleImagePreview deps0 req0 imgSvc0 (mapCache Map.empty) file0 PreviewSizeThumb True True)
       = (0, None)
   \<and> responseBody
        (snd (handleImagePreview deps0 req0 imgSvc0 (mapCache Map.empty) file0 PreviewSizeThumb True True))
       = ''small PNGDATA''"
proof -
  have a: "FormatFromExtension imgSvc0 (Extension file0) = (FormatOther 1, None)"
    by (simp add: imgSvc0_def file0_def)
  have b: "FormatOther 1 \<noteq> FormatGif" by simp
  have c: "\<not> checkEtag req0 (ModTime file0) (Size file0)"
    by (simp add: checkEtag_def req0_def)
  have d: "key0 = previewCacheKey (fmtSize deps0) (Path file0) (ModTime file0) PreviewSizeThumb"
    by (simp add: deps0_def file0_def previewCacheKey_key0)
  have e: "Load (brokenCache Map.empty) key0 = ([], False, None)"
    by (simp add: brokenCache_def mapCache_def)
  have f: "Fs file0 (Path file0) = Inr ''PNGDATA''"
    by (simp add: file0_def fs0_def)
  have g: "createPreview_switch PreviewSizeThumb True True
             = Some (128, 128, [WithMode ResizeModeFill, WithQuality QualityLow, WithFormat FormatJpeg])"
    by (simp add: createPreview_switch_def)
  have i: "Resize imgSvc0 ''PNGDATA'' 128 128
             [WithMode ResizeModeFill, WithQuality QualityLow, WithFormat FormatJpeg]
           = (''small PNGDATA'', None)"
    by (simp add: imgSvc0_def)
  have s: "(brokenCache Map.empty)\<lparr>Store := Store (mapCache Map.empty)\<rparr> = mapCache Map.empty"
    by (simp add: brokenCache_def mapCache_def)
  have st: "Store (brokenCache Map.empty) key0 ''small PNGDATA'' = Some (ErrOther ''disk full'')"
    by (simp add: brokenCache_def)
  from handleImagePreview_miss_render [OF a b c d e f g i]
  have "handleImagePreview deps0 req0 imgSvc0 (brokenCache Map.empty) file0 PreviewSizeThumb True True
           = ((0, None),
              [FormatFromExtensionCall (Extension file0), CheckEtagCall (ModTime file0) (Size file0),
               LoadCall key0,
               OpenCall (Path file0),
               ResizeCall ''PNGDATA'' 128 128
                 [WithMode ResizeModeFill, WithQuality QualityLow, WithFormat FormatJpeg],
               GoCall (createPreview_go deps0 (brokenCache Map.empty) file0 PreviewSizeThumb ''small PNGDATA''),
               CloseCall,
               WriteCall ''small PNGDATA''])"
    and "createPreview_go deps0 (brokenCache Map.empty) file0 PreviewSizeThumb ''small PNGDATA''
           = StoreCall key0 ''small PNGDATA'' #
               (case Store (brokenCache Map.empty) key0 ''small PNGDATA'' of
                  Some e \<Rightarrow> [PrintfCall ''failed to cache resized image: %v'' e]
                | None \<Rightarrow> [])"
    and "fst (handleImagePreview deps0 req0 imgSvc0
                ((brokenCache Map.empty)\<lparr>Store := Store (mapCache Map.empty)\<rparr>) file0 PreviewSizeThumb True True)
               = (0, None)
           \<and> responseBody
               (snd (handleImagePreview deps0 req0 imgSvc0
                ((brokenCache Map.empty)\<lparr>Store := Store (mapCache Map.empty)\<rparr>) file0 PreviewSizeThumb True True))
               = ''small PNGDATA''"
    by blast+
  then show ?thesis
    by (simp add: s st file0_def)
qed

text \<open>
  C5 as it is stated fails on the order: in the run of a miss on an empty cache, the
  \<open>go\<close> statement that submits the store comes before the first byte is written to
  the response.
\<close>

theorem handleImagePreview_store_order_counterexample:
  "snd (handleImagePreview deps0 req0 imgSvc0 (mapCache Map.empty) file0 PreviewSizeThumb True True)
     = [FormatFromExtensionCall ''.png'', CheckEtagCall 1700000000 7, LoadCall key0,
        OpenCall ''/a.png'',
        ResizeCall ''PNGDATA'' 128 128
          [WithMode ResizeModeFill, WithQuality QualityLow, WithFormat FormatJpeg],
        GoCall [StoreCall key0 ''small PNGDATA''],
        CloseCall,
        WriteCall ''small PNGDATA'']
   \<and> list_ex issuesStore
        (takeWhile (Not \<circ> isServe)
           (snd (handleImagePreview deps0 req0 imgSvc0 (mapCache Map.empty) file0 PreviewSizeThumb True True)))"
  by (simp add: handleImagePreview_miss0)

subsection \<open>The key is a function of the triple\<close>

text \<open>
  C8: \<open>previewCacheKey\<close> gives the same key for the same path, modification time and
  size class, and nothing else enters the key: whatever the request, the collaborators,
  the flags and the rest of the file descriptor are, every key that
  \<open>handleImagePreview\<close> hands to the cache (in \<open>Load\<close> or in the detached \<open>Store\<close>) is
  the \<open>previewCacheKey\<close> of that triple. (The rendering \<open>f\<close> of the size class is fixed
  by the program's generated code.)
\<close>

theorem previewCacheKey_deterministic:
  assumes "fPath1 = fPath2" and "fTime1 = fTime2" and "previewSize1 = previewSize2"
  shows "previewCacheKey f fPath1 fTime1 previewSize1 = previewCacheKey f fPath2 fTime2 previewSize2
       \<and> (Path file = fPath1 \<and> ModTime file = fTime1 \<and> fmtSize dp = f \<longrightarrow>
            (\<forall>e \<in> set (snd (handleImagePreview dp r imgSvc fileCache file previewSize1 et rp)).
               \<forall>k \<in> set (cacheKeys e). k = previewCacheKey f fPath2 fTime2 previewSize2))"
proof -
  have cp: "\<forall>e \<in> set (snd (createPreview dp imgSvc fileCache file previewSize1 et rp)).
              \<forall>k \<in> set (cacheKeys e).
                k = previewCacheKey (fmtSize dp) (Path file) (ModTime file) previewSize1"
    by (auto simp: createPreview_def createPreview_opened_def createPreview_go_def Let_def
        split: sum.splits option.splits prod.splits)
  have "\<forall>e \<in> set (snd (handleImagePreview dp r imgSvc fileCache file previewSize1 et rp)).
          \<forall>k \<in> set (cacheKeys e).
            k = previewCacheKey (fmtSize dp) (Path file) (ModTime file) previewSize1"
    using cp
    by (auto simp: handleImagePreview_def Let_def
        split: sum.splits option.splits prod.splits if_splits)
  then show ?thesis using assms by auto
qed

theorem previewCacheKey_deterministic_witness:
  "previewCacheKey fmt_x_PreviewSize ''/a.png'' 1700000000 PreviewSizeThumb = key0
   \<and> concat (map cacheKeys
        (snd (handleImagePreview deps0 req0 imgSvc0 (mapCache Map.empty) file0
                PreviewSizeThumb True True))) = [key0, key0]"
  using previewCacheKey_deterministic [of "''/a.png''" "''/a.png''" 1700000000 1700000000
      PreviewSizeThumb PreviewSizeThumb fmt_x_PreviewSize file0 deps0 req0 imgSvc0
      "mapCache Map.empty" True True]
  by (simp add: handleImagePreview_miss0 previewCacheKey_key0)

end
